theory Spec2Isabelle
  imports Complex_Main "HOL-Library.Sublist" "HOL-Library.Log_Nat" "HOL-Library.AList"
begin

section \<open>The worker of the decision-oversight demo (src/worker/src/index.ts)\<close>

text \<open>
  The worker is one \<^verbatim>\<open>fetch\<close> handler over a process-wide feedback store, and one pure
  function \<^verbatim>\<open>scoreCase\<close>. Request bodies are modelled at the types the source declares
  for them (\<^verbatim>\<open>ScoreRequest\<close>, \<^verbatim>\<open>FeedbackRequest\<close>), with every field optional, since the
  cast \<^verbatim>\<open>(await request.json()) as T\<close> checks nothing at run time: \<open>None\<close> is a field that
  is absent. A field that is \<^verbatim>\<open>null\<close> is handled like an absent one by every test the
  handler makes (\<^verbatim>\<open>!\<close>, \<^verbatim>\<open>??\<close>, \<^verbatim>\<open>&&\<close> and \<^verbatim>\<open>===\<close>). Enumerated strings of the
  declared types (\<^verbatim>\<open>type\<close>, \<^verbatim>\<open>action\<close>, \<^verbatim>\<open>final_verdict\<close>) are plain strings, as they
  arrive. JSON values of other shapes than the declared ones (a number where a string is
  declared, and so on) are outside the model.

  Strings are byte strings (UTF-8); numbers received in a request are rationals (every
  finite double is one); the score is an integer; the literals \<^verbatim>\<open>0.85\<close> and \<^verbatim>\<open>0.65\<close>
  are the rationals they denote.
\<close>

subsection \<open>Types\<close>

record Env =
  MODEL_NAME :: "string option"
  BACKEND :: "string option"

record Case =
  id' :: "string option"
  type' :: "string option"
  summary :: "string option"
  amount :: "rat option"
  merchant :: "string option"
  user_context :: "string option"

record ScoreRequest =
  case' :: "Case option"

datatype Verdict = Approve | Review | Reject

record ScoreResponse =
  case_id :: string
  risk_score :: int
  verdict :: Verdict
  confidence :: rat
  rationale :: string
  signals :: "string list"
  model :: string
  backend :: string
  timestamp :: string

record Original =
  original_verdict :: "string option"
  original_risk_score :: "rat option"
  original_confidence :: "rat option"
  original_model :: "string option"
  original_backend :: "string option"

record FeedbackRequest =
  fb_case_id :: "string option"
  reviewer :: "string option"
  action :: "string option"
  final_verdict :: "string option"
  reason_codes :: "string list option"
  notes' :: "string option"
  original :: "Original option"

text \<open>\<^verbatim>\<open>type StoredFeedback = FeedbackRequest & { received_at: string }\<close>\<close>

record StoredFeedback = FeedbackRequest +
  received_at :: string

record Store =
  feedback :: "StoredFeedback list"

subsection \<open>String helpers of the language\<close>

text \<open>
  \<^verbatim>\<open>String.prototype.toLowerCase\<close> on the bytes of a UTF-8 string: the letters A to Z go to
  a to z. Characters outside ASCII are left as they are; the seven phrases searched for
  below are ASCII and contain no \<^verbatim>\<open>k\<close>, and no \<^verbatim>\<open>i\<close> at their end, so the two code
  points whose lower case reaches into ASCII (the Kelvin sign, and dotted capital I, which
  becomes \<^verbatim>\<open>i\<close> followed by a combining dot) cannot complete a match either way.
\<close>

definition lower_char :: "char \<Rightarrow> char" where
  "lower_char c =
     (if (65::nat) \<le> of_char c \<and> of_char c \<le> (90::nat)
      then char_of (of_char c + (32::nat)) else c)"

definition toLowerCase :: "string \<Rightarrow> string" where
  "toLowerCase s = map lower_char s"

text \<open>\<^verbatim>\<open>text.includes(needle)\<close>: the needle occurs as a contiguous block.\<close>

primrec includes' :: "string \<Rightarrow> string \<Rightarrow> bool" where
  "includes' [] needle = (needle = [])"
| "includes' (c # cs) needle = (prefix needle (c # cs) \<or> includes' cs needle)"

text \<open>Truthiness of an optional string: \<^verbatim>\<open>!s\<close> holds when \<open>s\<close> is absent and when it is
  empty.\<close>

definition truthy :: "string option \<Rightarrow> bool" where
  "truthy s = (case s of None \<Rightarrow> False | Some v \<Rightarrow> v \<noteq> [])"

text \<open>A template-literal slot: an absent value prints as \<^verbatim>\<open>undefined\<close>. The handler
  calls \<^verbatim>\<open>scoreCase\<close> only with a summary that is present and not empty.\<close>

definition interpolate :: "string option \<Rightarrow> string" where
  "interpolate s = (case s of None \<Rightarrow> ''undefined'' | Some v \<Rightarrow> v)"

text \<open>\<^verbatim>\<open>s ?? ""\<close>\<close>

definition or_empty :: "string option \<Rightarrow> string" where
  "or_empty s = (case s of None \<Rightarrow> [] | Some v \<Rightarrow> v)"

subsection \<open>Heuristic scoring\<close>

record Scored =
  score :: int
  scored_verdict :: Verdict
  scored_confidence :: rat
  scored_signals :: "string list"

definition scoreCase :: "Case \<Rightarrow> Scored" where
  "scoreCase input =
    (let text = toLowerCase
           (interpolate (summary input) @ '' '' @ or_empty (merchant input) @ '' ''
              @ or_empty (user_context input));
         score = (20::int);
         signals = [];
         (score, signals) =
           (if (case amount input of None \<Rightarrow> False | Some a \<Rightarrow> a \<noteq> 0 \<and> a > 500)
            then (score + 25, signals @ [''high_amount'']) else (score, signals));
         (score, signals) =
           (if includes' text ''urgent'' \<or> includes' text ''immediately''
            then (score + 15, signals @ [''urgency_language'']) else (score, signals));
         (score, signals) =
           (if includes' text ''gift card'' \<or> includes' text ''wire'' \<or> includes' text ''crypto''
            then (score + 25, signals @ [''high_risk_payment'']) else (score, signals));
         (score, signals) =
           (if includes' text ''not a scam'' \<or> includes' text ''trust me''
            then (score + 15, signals @ [''social_engineering_phrase'']) else (score, signals));
         score = min 100 (max 0 score);
         verdict = (if score \<ge> 70 then Reject else if score \<ge> 40 then Review else Approve);
         confidence = (if score \<ge> 80 \<or> score \<le> 20 then 85 / 100 else 65 / 100)
     in \<lparr>score = score, scored_verdict = verdict, scored_confidence = confidence,
         scored_signals = signals\<rparr>)"

subsection \<open>Numbers of the language\<close>

text \<open>
  \<^verbatim>\<open>overrides / total\<close> divides two array lengths, which are integers below \<open>2^53\<close>, as
  IEEE 754 binary64 numbers: the result is the double nearest to the exact quotient, a
  tie going to the even significand. For such operands the quotient is in the normal
  range, so the double has a 53-bit significand \<open>m\<close> with \<open>2^52 \<le> m < 2^53\<close> and the
  value \<open>m * 2^(e - 52)\<close> where \<open>2^e \<le> q < 2^(e + 1)\<close>. The divisor is positive at the only
  call.
\<close>

definition round_ties_even :: "rat \<Rightarrow> int" where
  "round_ties_even x =
     (let n = \<lfloor>x\<rfloor>; r = x - of_int n
      in if r < 1 / 2 then n else if 1 / 2 < r then n + 1 else if even n then n else n + 1)"

definition binary64_div :: "nat \<Rightarrow> nat \<Rightarrow> rat" where
  "binary64_div a b =
     (if a = 0 then 0
      else let q = of_nat a / of_nat b;
               e0 = bitlen (int a) - bitlen (int b);
               e = (if 2 powi e0 \<le> q then e0 else e0 - 1);
               ulp = 2 powi (e - 52)
           in of_int (round_ties_even (q / ulp)) * ulp)"

text \<open>
  \<^verbatim>\<open>Number(x.toFixed(2))\<close> for \<open>0 \<le> x < 10^21\<close>: \<^verbatim>\<open>toFixed\<close> takes the integer \<open>n\<close> for which
  \<open>n / 100 - x\<close> is closest to zero, the larger one if there are two, and prints \<open>n / 100\<close>
  with two decimals; \<^verbatim>\<open>Number\<close> reads that decimal back, and the response prints it
  again as the same decimal, which is the value kept here.
\<close>

definition toFixed2 :: "rat \<Rightarrow> rat" where
  "toFixed2 x = of_int \<lfloor>x * 100 + 1 / 2\<rfloor> / 100"

subsection \<open>A plain object used as a dictionary\<close>

text \<open>
  \<^verbatim>\<open>const reasons: Record<string, number> = {}\<close> is an ordinary object: a read of a key
  it does not own falls through to \<^verbatim>\<open>Object.prototype\<close>, and \<^verbatim>\<open>Object.entries\<close> lists
  its keys with the array indices first, in ascending numeric order, and the other keys
  after them in the order of their creation. The object is kept as the list of its own
  properties in creation order.
\<close>

definition Object_prototype :: "string list" where
  "Object_prototype =
     [''constructor'', ''__defineGetter__'', ''__defineSetter__'', ''hasOwnProperty'',
      ''__lookupGetter__'', ''__lookupSetter__'', ''isPrototypeOf'', ''propertyIsEnumerable'',
      ''toString'', ''valueOf'', ''__proto__'', ''toLocaleString'']"

text \<open>
  A value held by \<^verbatim>\<open>reasons\<close>: a number, or the string that \<^verbatim>\<open>+ 1\<close> makes of an
  inherited member (its source text followed by \<^verbatim>\<open>1\<close>; the text itself is not kept).
\<close>

datatype Count = Count nat | Concatenated

text \<open>\<^verbatim>\<open>reasons[r] = (reasons[r] ?? 0) + 1\<close>\<close>

definition bump :: "(string \<times> Count) list \<Rightarrow> string \<Rightarrow> (string \<times> Count) list" where
  "bump reasons r =
     (case map_of reasons r of
        Some (Count n) \<Rightarrow> AList.update r (Count (n + 1)) reasons
      | Some Concatenated \<Rightarrow> AList.update r Concatenated reasons
      | None \<Rightarrow>
          if r = ''__proto__'' then reasons
          else if r \<in> set Object_prototype then reasons @ [(r, Concatenated)]
          else reasons @ [(r, Count 1)])"

text \<open>
  An array index is the decimal numeral, without leading zeros, of an integer from
  \<open>0\<close> to \<open>2^32 - 2\<close>.
\<close>

definition is_digit :: "char \<Rightarrow> bool" where
  "is_digit c = ((48::int) \<le> of_char c \<and> of_char c \<le> (57::int))"

definition numeric_value :: "string \<Rightarrow> int" where
  "numeric_value s = foldl (\<lambda>n c. 10 * n + (of_char c - 48)) 0 s"

definition is_array_index :: "string \<Rightarrow> bool" where
  "is_array_index s =
     (s \<noteq> [] \<and> list_all is_digit s \<and> (s = ''0'' \<or> hd s \<noteq> CHR ''0'')
      \<and> numeric_value s < 4294967295)"

definition Object_entries :: "(string \<times> 'v) list \<Rightarrow> (string \<times> 'v) list" where
  "Object_entries obj =
     sort_key (\<lambda>p. numeric_value (fst p)) (filter (\<lambda>p. is_array_index (fst p)) obj)
       @ filter (\<lambda>p. \<not> is_array_index (fst p)) obj"

text \<open>
  \<^verbatim>\<open>.sort((a, b) => b[1] - a[1])\<close>. The sort is stable. The difference is not a number as
  soon as one side is a string, and sort reads that as \<open>0\<close>; the comparison is then not a
  consistent one and the language leaves the resulting order to the implementation. The
  insertion sort below is the sort for consistent comparisons (all counts numbers); the
  order an engine produces otherwise may differ from it, and no theorem below is about
  such a list.
\<close>

definition compare_counts :: "string \<times> Count \<Rightarrow> string \<times> Count \<Rightarrow> int" where
  "compare_counts a b =
     (case (snd a, snd b) of
        (Count m, Count n) \<Rightarrow> int n - int m
      | _ \<Rightarrow> 0)"

fun insert_by :: "('a \<Rightarrow> 'a \<Rightarrow> int) \<Rightarrow> 'a \<Rightarrow> 'a list \<Rightarrow> 'a list" where
  "insert_by cmp x [] = [x]"
| "insert_by cmp x (y # ys) = (if cmp x y \<le> 0 then x # y # ys else y # insert_by cmp x ys)"

definition sort_by :: "('a \<Rightarrow> 'a \<Rightarrow> int) \<Rightarrow> 'a list \<Rightarrow> 'a list" where
  "sort_by cmp xs = foldr (insert_by cmp) xs []"

subsection \<open>Analytics\<close>

record Analytics =
  total_feedback :: nat
  override_rate :: rat
  top_reasons :: "(string \<times> Count) list"

text \<open>The two nested loops over the store and over \<^verbatim>\<open>f.reason_codes ?? []\<close>.\<close>

definition tally :: "StoredFeedback list \<Rightarrow> (string \<times> Count) list" where
  "tally fs =
     fold (\<lambda>f reasons.
             fold (\<lambda>r reasons. bump reasons r)
               (case reason_codes f of None \<Rightarrow> [] | Some rs \<Rightarrow> rs) reasons)
       fs []"

definition computeAnalytics :: "Store \<Rightarrow> Analytics" where
  "computeAnalytics store =
     (let total = length (feedback store);
          overrides = length (filter (\<lambda>f. action f = Some ''Override'') (feedback store));
          reasons = tally (feedback store)
      in \<lparr>total_feedback = total,
          override_rate = (if total \<noteq> 0 then toFixed2 (binary64_div overrides total) else 0),
          top_reasons = sort_by compare_counts (Object_entries reasons)\<rparr>)"



subsection \<open>The worker\<close>

text \<open>
  A request carries its method, the path of its URL, its \<^verbatim>\<open>Origin\<close> header and what
  \<^verbatim>\<open>request.json()\<close> makes of its body: a rejection when the body does not parse, the
  value \<^verbatim>\<open>null\<close>, or an object with the fields of one of the two request types. Any
  other JSON value (a number, a string, an array, an object with none of these fields)
  reads like an object whose fields are all absent.
\<close>

datatype Payload =
    Unparseable
  | JsonNull
  | ScoreBody ScoreRequest
  | FeedbackBody FeedbackRequest

record Request =
  method' :: string
  pathname :: string
  origin :: "string option"
  payload :: Payload

text \<open>What the platform supplies during a call: \<^verbatim>\<open>crypto.randomUUID()\<close> and
  \<^verbatim>\<open>new Date().toISOString()\<close>.\<close>

record Sys =
  randomUUID :: string
  now :: string

datatype Body =
    NoBody
  | ErrorBody string
  | HealthBody
  | ScoreResult ScoreResponse
  | OkBody
  | AnalyticsBody Analytics

record Response =
  status :: nat
  allow_origin :: string
  body :: Body

text \<open>An exception that leaves \<^verbatim>\<open>fetch\<close>: the handler catches none.\<close>

datatype Fault = SyntaxError | TypeError

definition cors :: "string option \<Rightarrow> string" where
  "cors origin' = (if truthy origin' then or_empty origin' else ''*'')"

definition json :: "Body \<Rightarrow> string option \<Rightarrow> nat \<Rightarrow> Response" where
  "json data origin' status' = \<lparr>status = status', allow_origin = cors origin', body = data\<rparr>"

text \<open>\<^verbatim>\<open>globalThis[STORE_KEY]\<close> is \<open>None\<close> until the first call of \<^verbatim>\<open>getStore\<close>.\<close>

definition getStore :: "Store option \<Rightarrow> Store \<times> Store option" where
  "getStore g =
     (case g of
        None \<Rightarrow> (\<lparr>feedback = []\<rparr>, Some \<lparr>feedback = []\<rparr>)
      | Some store \<Rightarrow> (store, g))"

text \<open>\<^verbatim>\<open>{ ...body, received_at: new Date().toISOString() }\<close>\<close>

definition stored :: "FeedbackRequest \<Rightarrow> string \<Rightarrow> StoredFeedback" where
  "stored b t = FeedbackRequest.extend b \<lparr>received_at = t\<rparr>"

definition fetch ::
  "Env \<Rightarrow> Sys \<Rightarrow> Store option \<Rightarrow> Request \<Rightarrow> (Fault + Response) \<times> Store option" where
  "fetch env sys g request =
    (if method' request = ''OPTIONS'' then
       (Inr \<lparr>status = 204, allow_origin = cors (origin request), body = NoBody\<rparr>, g)
     else if method' request = ''GET'' \<and> pathname request = ''/'' then
       (Inr (json HealthBody (origin request) 200), g)
     else if method' request = ''POST'' \<and> pathname request = ''/score'' then
       (case payload request of
          Unparseable \<Rightarrow> (Inl SyntaxError, g)
        | _ \<Rightarrow>
           (case (case payload request of ScoreBody b \<Rightarrow> case' b | _ \<Rightarrow> None) of
              None \<Rightarrow> (Inr (json (ErrorBody ''Missing required fields'') (origin request) 400), g)
            | Some c \<Rightarrow>
                if \<not> truthy (summary c) \<or> \<not> truthy (type' c) then
                  (Inr (json (ErrorBody ''Missing required fields'') (origin request) 400), g)
                else
                  let case_id = (case id' c of None \<Rightarrow> randomUUID sys | Some i \<Rightarrow> i);
                      r = scoreCase c;
                      response =
                        \<lparr>case_id = case_id,
                         risk_score = score r,
                         verdict = scored_verdict r,
                         confidence = scored_confidence r,
                         rationale = ''Heuristic risk evaluation for demo purposes.'',
                         signals = scored_signals r,
                         model = (case MODEL_NAME env of None \<Rightarrow> ''heuristic-mvp'' | Some m \<Rightarrow> m),
                         backend = (case BACKEND env of None \<Rightarrow> ''local'' | Some b \<Rightarrow> b),
                         timestamp = now sys\<rparr>
                  in (Inr (json (ScoreResult response) (origin request) 200), g)))
     else if method' request = ''POST'' \<and> pathname request = ''/feedback'' then
       (case payload request of
          Unparseable \<Rightarrow> (Inl SyntaxError, g)
        | JsonNull \<Rightarrow> (Inl TypeError, g)
        | ScoreBody b \<Rightarrow>
            (Inr (json (ErrorBody ''Invalid feedback payload'') (origin request) 400), g)
        | FeedbackBody b \<Rightarrow>
            if \<not> truthy (fb_case_id b) \<or> \<not> truthy (reviewer b) \<or> \<not> truthy (final_verdict b) then
              (Inr (json (ErrorBody ''Invalid feedback payload'') (origin request) 400), g)
            else
              let (store, g) = getStore g;
                  store = store\<lparr>feedback := feedback store @ [stored b (now sys)]\<rparr>
              in (Inr (json OkBody (origin request) 200), Some store))
     else if method' request = ''GET'' \<and> pathname request = ''/analytics'' then
       (let (store, g) = getStore g
        in (Inr (json (AnalyticsBody (computeAnalytics store)) (origin request) 200), g))
     else
       (Inr (json (ErrorBody ''Not found'') (origin request) 404), g))"

text \<open>The Feedback Store sequence behind the global: empty before the store exists.\<close>

definition records :: "Store option \<Rightarrow> StoredFeedback list" where
  "records g = (case g of None \<Rightarrow> [] | Some store \<Rightarrow> feedback store)"

section \<open>Properties of the scoring heuristic\<close>

lemma includes_sublist: "includes' t n = sublist n t"
  by (induction t) (simp_all add: sublist_Cons_right)

text \<open>The four rules are independent: the result of \<open>scoreCase\<close> in closed form.\<close>

lemma scoreCase_unfold:
  assumes tx: "tx = toLowerCase
           (interpolate (summary input) @ '' '' @ or_empty (merchant input) @ '' ''
              @ or_empty (user_context input))"
    and A: "A = (case amount input of None \<Rightarrow> False | Some a \<Rightarrow> a \<noteq> 0 \<and> a > 500)"
    and B: "B = (includes' tx ''urgent'' \<or> includes' tx ''immediately'')"
    and C: "C = (includes' tx ''gift card'' \<or> includes' tx ''wire'' \<or> includes' tx ''crypto'')"
    and D: "D = (includes' tx ''not a scam'' \<or> includes' tx ''trust me'')"
    and s: "s = 20 + (if A then 25 else 0) + (if B then 15 else 0) + (if C then 25 else 0)
               + (if D then 15 else (0::int))"
  shows "scoreCase input =
     \<lparr>score = s,
       scored_verdict = (if s \<ge> 70 then Reject else if s \<ge> 40 then Review else Approve),
       scored_confidence = (if s \<ge> 80 \<or> s \<le> 20 then 85 / 100 else 65 / 100),
       scored_signals =
         (if A then [''high_amount''] else []) @ (if B then [''urgency_language''] else [])
         @ (if C then [''high_risk_payment''] else [])
         @ (if D then [''social_engineering_phrase''] else [])\<rparr>"
  unfolding scoreCase_def Let_def tx[symmetric] A[symmetric] B[symmetric] C[symmetric] D[symmetric]
  unfolding s
  by (cases A; cases B; cases C; cases D; simp)

lemmas scoreCase_closed = scoreCase_unfold [OF refl refl refl refl refl refl]

text \<open>
  C4. The case "Urgent wire transfer requested by new vendor" with amount 1200 scores 85,
  Reject, confidence 0.85, with the signals high_amount, urgency_language and
  high_risk_payment in that order; and for every case the signals are the names of the
  rules that fired, listed in the fixed order of the four rules.
\<close>

theorem C4_signals_follow_rule_order:
  "scoreCase \<lparr>id' = None, type' = Some ''transaction'',
      summary = Some ''Urgent wire transfer requested by new vendor'',
      amount = Some 1200, merchant = None, user_context = None\<rparr>
     = \<lparr>score = 85, scored_verdict = Reject, scored_confidence = 85 / 100,
        scored_signals = [''high_amount'', ''urgency_language'', ''high_risk_payment'']\<rparr>
   \<and> scored_signals (scoreCase input) =
       filter (\<lambda>name.
           name = ''high_amount'' \<and> (\<exists>a. amount input = Some a \<and> a > 500)
         \<or> name = ''urgency_language''
             \<and> (\<exists>p \<in> set [''urgent'', ''immediately'']. sublist p (toLowerCase
                   (interpolate (summary input) @ '' '' @ or_empty (merchant input) @ '' ''
                      @ or_empty (user_context input))))
         \<or> name = ''high_risk_payment''
             \<and> (\<exists>p \<in> set [''gift card'', ''wire'', ''crypto'']. sublist p (toLowerCase
                   (interpolate (summary input) @ '' '' @ or_empty (merchant input) @ '' ''
                      @ or_empty (user_context input))))
         \<or> name = ''social_engineering_phrase''
             \<and> (\<exists>p \<in> set [''not a scam'', ''trust me'']. sublist p (toLowerCase
                   (interpolate (summary input) @ '' '' @ or_empty (merchant input) @ '' ''
                      @ or_empty (user_context input)))))
         [''high_amount'', ''urgency_language'', ''high_risk_payment'',
          ''social_engineering_phrase'']"
proof (intro conjI)
  show "scoreCase \<lparr>id' = None, type' = Some ''transaction'',
      summary = Some ''Urgent wire transfer requested by new vendor'',
      amount = Some 1200, merchant = None, user_context = None\<rparr>
     = \<lparr>score = 85, scored_verdict = Reject, scored_confidence = 85 / 100,
        scored_signals = [''high_amount'', ''urgency_language'', ''high_risk_payment'']\<rparr>"
    by code_simp
next
  have amt: "(case amount input of None \<Rightarrow> False | Some a \<Rightarrow> a \<noteq> 0 \<and> a > 500)
             = (\<exists>a. amount input = Some a \<and> a > 500)"
    by (cases "amount input") auto
  show "scored_signals (scoreCase input) =
       filter (\<lambda>name.
           name = ''high_amount'' \<and> (\<exists>a. amount input = Some a \<and> a > 500)
         \<or> name = ''urgency_language''
             \<and> (\<exists>p \<in> set [''urgent'', ''immediately'']. sublist p (toLowerCase
                   (interpolate (summary input) @ '' '' @ or_empty (merchant input) @ '' ''
                      @ or_empty (user_context input))))
         \<or> name = ''high_risk_payment''
             \<and> (\<exists>p \<in> set [''gift card'', ''wire'', ''crypto'']. sublist p (toLowerCase
                   (interpolate (summary input) @ '' '' @ or_empty (merchant input) @ '' ''
                      @ or_empty (user_context input))))
         \<or> name = ''social_engineering_phrase''
             \<and> (\<exists>p \<in> set [''not a scam'', ''trust me'']. sublist p (toLowerCase
                   (interpolate (summary input) @ '' '' @ or_empty (merchant input) @ '' ''
                      @ or_empty (user_context input)))))
         [''high_amount'', ''urgency_language'', ''high_risk_payment'',
          ''social_engineering_phrase'']"
    by (simp add: scoreCase_closed amt includes_sublist)
qed

theorem C4_signals_witness:
  "scored_signals (scoreCase \<lparr>id' = Some ''CASE-1003'', type' = Some ''transaction'',
       summary = Some ''Gift card purchase requested via email'',
       amount = Some 300, merchant = None, user_context = None\<rparr>) = [''high_risk_payment'']"
proof -
  let ?c = "\<lparr>id' = Some ''CASE-1003'', type' = Some ''transaction'',
       summary = Some ''Gift card purchase requested via email'',
       amount = Some 300, merchant = None, user_context = None\<rparr>"
  have tx: "toLowerCase (interpolate (summary ?c) @ '' '' @ or_empty (merchant ?c) @ '' ''
                    @ or_empty (user_context ?c))
            = ''gift card purchase requested via email  ''"
    by code_simp
  show ?thesis
    using C4_signals_follow_rule_order [of ?c] unfolding tx
    by (simp add: includes_sublist [symmetric])
qed

text \<open>
  C5. A case whose amount is absent or at most 500, and whose lower-cased text contains
  none of the seven trigger phrases, scores the baseline 20, is approved, and has no
  signals.
\<close>

theorem C5_quiet_case_scores_baseline:
  assumes "amount input = None \<or> (\<exists>a. amount input = Some a \<and> a \<le> 500)"
    and "\<forall>p \<in> set [''urgent'', ''immediately'', ''gift card'', ''wire'', ''crypto'',
                     ''not a scam'', ''trust me''].
           \<not> sublist p (toLowerCase
                 (interpolate (summary input) @ '' '' @ or_empty (merchant input) @ '' ''
                    @ or_empty (user_context input)))"
  shows "score (scoreCase input) = 20 \<and> scored_verdict (scoreCase input) = Approve
         \<and> scored_signals (scoreCase input) = []"
proof -
  have "\<not> (case amount input of None \<Rightarrow> False | Some a \<Rightarrow> a \<noteq> 0 \<and> a > 500)"
    using assms(1) by (cases "amount input") auto
  then show ?thesis
    using assms(2) by (simp add: scoreCase_closed includes_sublist)
qed

theorem C5_quiet_case_witness:
  "score (scoreCase \<lparr>id' = None, type' = Some ''transaction'',
       summary = Some ''Low-dollar card purchase at known merchant'',
       amount = Some 12, merchant = None, user_context = None\<rparr>) = 20
   \<and> scored_verdict (scoreCase \<lparr>id' = None, type' = Some ''transaction'',
       summary = Some ''Low-dollar card purchase at known merchant'',
       amount = Some 12, merchant = None, user_context = None\<rparr>) = Approve
   \<and> scored_signals (scoreCase \<lparr>id' = None, type' = Some ''transaction'',
       summary = Some ''Low-dollar card purchase at known merchant'',
       amount = Some 12, merchant = None, user_context = None\<rparr>) = []"
proof -
  let ?c = "\<lparr>id' = None, type' = Some ''transaction'',
       summary = Some ''Low-dollar card purchase at known merchant'',
       amount = Some 12, merchant = None, user_context = None\<rparr>"
  have a: "amount ?c = None \<or> (\<exists>a. amount ?c = Some a \<and> a \<le> 500)"
    by simp
  have tx: "toLowerCase (interpolate (summary ?c) @ '' '' @ or_empty (merchant ?c) @ '' ''
                    @ or_empty (user_context ?c))
            = ''low-dollar card purchase at known merchant  ''"
    by code_simp
  have b: "\<forall>p \<in> set [''urgent'', ''immediately'', ''gift card'', ''wire'', ''crypto'',
                     ''not a scam'', ''trust me''].
           \<not> sublist p (toLowerCase
                 (interpolate (summary ?c) @ '' '' @ or_empty (merchant ?c) @ '' ''
                    @ or_empty (user_context ?c)))"
    unfolding tx by (simp add: includes_sublist [symmetric])
  show ?thesis
    by (rule C5_quiet_case_scores_baseline [OF a b])
qed

text \<open>
  C6. The score of every case is an integer from 0 to 100; a case on which all four
  rules fire reaches 100.
\<close>

theorem C6_score_in_range:
  "0 \<le> score (scoreCase input) \<and> score (scoreCase input) \<le> 100
   \<and> score (scoreCase \<lparr>id' = None, type' = Some ''transaction'',
         summary = Some ''Urgent: wire it immediately, trust me, this is not a scam'',
         amount = Some 501, merchant = None, user_context = None\<rparr>) = 100"
proof (intro conjI)
  show "0 \<le> score (scoreCase input)" by (simp add: scoreCase_closed)
  show "score (scoreCase input) \<le> 100" by (simp add: scoreCase_closed)
  show "score (scoreCase \<lparr>id' = None, type' = Some ''transaction'',
         summary = Some ''Urgent: wire it immediately, trust me, this is not a scam'',
         amount = Some 501, merchant = None, user_context = None\<rparr>) = 100"
    by code_simp
qed

theorem C6_score_in_range_witness:
  "0 \<le> score (scoreCase \<lparr>id' = None, type' = Some ''account'',
         summary = Some ''Crypto payout, trust me'', amount = None,
         merchant = Some ''Exchange'', user_context = Some ''Pay IMMEDIATELY''\<rparr>)
   \<and> score (scoreCase \<lparr>id' = None, type' = Some ''account'',
         summary = Some ''Crypto payout, trust me'', amount = None,
         merchant = Some ''Exchange'', user_context = Some ''Pay IMMEDIATELY''\<rparr>) \<le> 100"
  using C6_score_in_range
    [of "\<lparr>id' = None, type' = Some ''account'',
         summary = Some ''Crypto payout, trust me'', amount = None,
         merchant = Some ''Exchange'', user_context = Some ''Pay IMMEDIATELY''\<rparr>"]
  by blast

text \<open>
  C7. Verdict and confidence are functions of the score alone: Reject from 70, Review
  from 40 to 69, Approve below 40; confidence 0.85 when the score is at least 80 or at
  most 20, and 0.65 otherwise.
\<close>

theorem C7_verdict_and_confidence_thresholds:
  "scored_verdict (scoreCase input) =
     (if 70 \<le> score (scoreCase input) then Reject
      else if 40 \<le> score (scoreCase input) then Review else Approve)
   \<and> scored_confidence (scoreCase input) =
     (if 80 \<le> score (scoreCase input) \<or> score (scoreCase input) \<le> 20 then 85 / 100
      else 65 / 100)"
  by (simp add: scoreCase_closed)

theorem C7_thresholds_witness:
  "score (scoreCase \<lparr>id' = None, type' = Some ''transaction'',
       summary = Some ''Wire transfer to a new account'',
       amount = Some 900, merchant = None, user_context = None\<rparr>) = 70
   \<and> scored_verdict (scoreCase \<lparr>id' = None, type' = Some ''transaction'',
       summary = Some ''Wire transfer to a new account'',
       amount = Some 900, merchant = None, user_context = None\<rparr>) = Reject
   \<and> scored_confidence (scoreCase \<lparr>id' = None, type' = Some ''transaction'',
       summary = Some ''Wire transfer to a new account'',
       amount = Some 900, merchant = None, user_context = None\<rparr>) = 65 / 100"
proof -
  let ?c = "\<lparr>id' = None, type' = Some ''transaction'',
       summary = Some ''Wire transfer to a new account'',
       amount = Some 900, merchant = None, user_context = None\<rparr>"
  have s: "score (scoreCase ?c) = 70"
    by code_simp
  show ?thesis
    using C7_verdict_and_confidence_thresholds [of ?c] unfolding s by simp
qed

section \<open>Properties of the request handler\<close>

lemma fetch_post_score:
  assumes "method' request = ''POST''" and "pathname request = ''/score''"
  shows "fetch env sys g request =
    (case payload request of
       Unparseable \<Rightarrow> (Inl SyntaxError, g)
     | ScoreBody b \<Rightarrow>
        (case case' b of
           None \<Rightarrow> (Inr (json (ErrorBody ''Missing required fields'') (origin request) 400), g)
         | Some c \<Rightarrow>
             if truthy (summary c) \<and> truthy (type' c) then
               (Inr (json (ScoreResult
                  \<lparr>case_id = (case id' c of None \<Rightarrow> randomUUID sys | Some i \<Rightarrow> i),
                   risk_score = score (scoreCase c),
                   verdict = scored_verdict (scoreCase c),
                   confidence = scored_confidence (scoreCase c),
                   rationale = ''Heuristic risk evaluation for demo purposes.'',
                   signals = scored_signals (scoreCase c),
                   model = (case MODEL_NAME env of None \<Rightarrow> ''heuristic-mvp'' | Some m \<Rightarrow> m),
                   backend = (case BACKEND env of None \<Rightarrow> ''local'' | Some b \<Rightarrow> b),
                   timestamp = now sys\<rparr>) (origin request) 200), g)
             else (Inr (json (ErrorBody ''Missing required fields'') (origin request) 400), g))
     | _ \<Rightarrow> (Inr (json (ErrorBody ''Missing required fields'') (origin request) 400), g))"
  using assms by (simp add: fetch_def Let_def split: Payload.splits option.splits)

lemma fetch_post_feedback:
  assumes "method' request = ''POST''" and "pathname request = ''/feedback''"
  shows "fetch env sys g request =
    (case payload request of
       Unparseable \<Rightarrow> (Inl SyntaxError, g)
     | JsonNull \<Rightarrow> (Inl TypeError, g)
     | ScoreBody b \<Rightarrow>
         (Inr (json (ErrorBody ''Invalid feedback payload'') (origin request) 400), g)
     | FeedbackBody b \<Rightarrow>
         if truthy (fb_case_id b) \<and> truthy (reviewer b) \<and> truthy (final_verdict b) then
           (Inr (json OkBody (origin request) 200),
            Some \<lparr>feedback = records g @ [stored b (now sys)]\<rparr>)
         else (Inr (json (ErrorBody ''Invalid feedback payload'') (origin request) 400), g))"
  using assms
  by (simp add: fetch_def Let_def getStore_def records_def split: Payload.splits option.splits)

lemma fetch_other_keeps_global:
  assumes "\<not> (method' request = ''POST'' \<and> pathname request = ''/feedback'')"
  shows "records (snd (fetch env sys g request)) = records g"
    and "fst (fetch env sys g request) \<noteq> Inr (json OkBody (origin request) 200)"
  using assms
  by (auto simp add: fetch_def Let_def getStore_def records_def json_def
      split: Payload.splits option.splits)


text \<open>
  A body that is the JSON value \<^verbatim>\<open>null\<close> is neither rejected nor acknowledged: the
  /feedback branch reads \<^verbatim>\<open>body.case_id\<close> without the \<^verbatim>\<open>?.\<close> that the /score branch has,
  and the read throws. The theorem below leaves this body aside.
\<close>

lemma feedback_null_body_faults:
  "fetch \<lparr>MODEL_NAME = None, BACKEND = None\<rparr>
       \<lparr>randomUUID = ''uuid-1'', now = ''2026-01-01T00:00:00.000Z''\<rparr> None
       \<lparr>method' = ''POST'', pathname = ''/feedback'', origin = None, payload = JsonNull\<rparr>
     = (Inl TypeError, None)"
  by (simp add: fetch_def)



text \<open>
  C2, as the specification states it: a body that does not parse is answered with the
  400 response of a validation failure. The handler has no such mapping: the rejection
  of \<^verbatim>\<open>request.json()\<close> leaves \<^verbatim>\<open>fetch\<close> as it is, and no response is built.
\<close>

theorem C2_unparseable_body_faults:
  "fst (fetch \<lparr>MODEL_NAME = None, BACKEND = None\<rparr>
       \<lparr>randomUUID = ''uuid-1'', now = ''2026-01-01T00:00:00.000Z''\<rparr> None
       \<lparr>method' = ''POST'', pathname = ''/score'', origin = None, payload = Unparseable\<rparr>)
     = Inl SyntaxError
   \<and> fst (fetch \<lparr>MODEL_NAME = None, BACKEND = None\<rparr>
       \<lparr>randomUUID = ''uuid-1'', now = ''2026-01-01T00:00:00.000Z''\<rparr> None
       \<lparr>method' = ''POST'', pathname = ''/feedback'', origin = None, payload = Unparseable\<rparr>)
     = Inl SyntaxError"
  by (simp add: fetch_def)

text \<open>
  C2, amended. For every request to /score or /feedback whose body does not parse, the
  handler returns no response: the parse error propagates out of it as an unhandled
  fault. The store is left as it was.
\<close>

theorem C2_unparseable_body_propagates:
  assumes "method' request = ''POST''"
    and "pathname request = ''/score'' \<or> pathname request = ''/feedback''"
    and "payload request = Unparseable"
  shows "fetch env sys g request = (Inl SyntaxError, g)"
  using assms by (auto simp add: fetch_post_score fetch_post_feedback)

theorem C2_unparseable_body_witness:
  "fetch \<lparr>MODEL_NAME = Some ''m'', BACKEND = None\<rparr>
       \<lparr>randomUUID = ''uuid-1'', now = ''2026-01-01T00:00:00.000Z''\<rparr>
       (Some \<lparr>feedback = []\<rparr>)
       \<lparr>method' = ''POST'', pathname = ''/feedback'', origin = None, payload = Unparseable\<rparr>
     = (Inl SyntaxError, Some \<lparr>feedback = []\<rparr>)"
  using C2_unparseable_body_propagates
    [of "\<lparr>method' = ''POST'', pathname = ''/feedback'', origin = None, payload = Unparseable\<rparr>"
        "\<lparr>MODEL_NAME = Some ''m'', BACKEND = None\<rparr>"
        "\<lparr>randomUUID = ''uuid-1'', now = ''2026-01-01T00:00:00.000Z''\<rparr>"
        "Some \<lparr>feedback = []\<rparr>"]
  by simp

text \<open>
  C3. After any single request the sequence of stored records is what it was, or what
  it was followed by one new record; it is the second exactly when the request is a
  feedback submission that is acknowledged. Records already stored keep their content
  and their place.
\<close>

theorem C3_store_is_append_only:
  "(fst (fetch env sys g request) \<noteq> Inr (json OkBody (origin request) 200)
      \<and> records (snd (fetch env sys g request)) = records g)
   \<or> (fst (fetch env sys g request) = Inr (json OkBody (origin request) 200)
      \<and> method' request = ''POST'' \<and> pathname request = ''/feedback''
      \<and> (\<exists>b. payload request = FeedbackBody b
             \<and> records (snd (fetch env sys g request)) = records g @ [stored b (now sys)]))"
proof (cases "method' request = ''POST'' \<and> pathname request = ''/feedback''")
  case False
  then show ?thesis
    using fetch_other_keeps_global [of request env sys g] by blast
next
  case True
  then show ?thesis
    by (cases "payload request")
       (simp_all add: fetch_post_feedback json_def records_def)
qed

theorem C3_store_witness:
  "records (snd (fetch \<lparr>MODEL_NAME = None, BACKEND = None\<rparr>
       \<lparr>randomUUID = ''uuid-1'', now = ''2026-01-02T00:00:00.000Z''\<rparr>
       (Some \<lparr>feedback = [stored \<lparr>fb_case_id = Some ''CASE-1001'', reviewer = Some ''ana'',
           action = Some ''Approve'', final_verdict = Some ''Reject'', reason_codes = Some [],
           notes' = None, original = None\<rparr> ''2026-01-01T00:00:00.000Z'']\<rparr>)
       \<lparr>method' = ''GET'', pathname = ''/analytics'', origin = None, payload = Unparseable\<rparr>))
   = [stored \<lparr>fb_case_id = Some ''CASE-1001'', reviewer = Some ''ana'',
           action = Some ''Approve'', final_verdict = Some ''Reject'', reason_codes = Some [],
           notes' = None, original = None\<rparr> ''2026-01-01T00:00:00.000Z'']"
  using C3_store_is_append_only
    [of "\<lparr>MODEL_NAME = None, BACKEND = None\<rparr>"
        "\<lparr>randomUUID = ''uuid-1'', now = ''2026-01-02T00:00:00.000Z''\<rparr>"
        "Some \<lparr>feedback = [stored \<lparr>fb_case_id = Some ''CASE-1001'', reviewer = Some ''ana'',
           action = Some ''Approve'', final_verdict = Some ''Reject'', reason_codes = Some [],
           notes' = None, original = None\<rparr> ''2026-01-01T00:00:00.000Z'']\<rparr>"
        "\<lparr>method' = ''GET'', pathname = ''/analytics'', origin = None, payload = Unparseable\<rparr>"]
  by (simp add: records_def)

text \<open>
  C10. A required field that is present but empty is treated as absent: an empty
  \<open>summary\<close> or \<open>type\<close> gives 400 "Missing required fields" on /score, and an empty
  \<open>case_id\<close>, \<open>reviewer\<close> or \<open>final_verdict\<close> gives 400 "Invalid feedback payload" on
  /feedback. Nothing is stored.
\<close>

theorem C10_empty_string_is_missing:
  "(method' request = ''POST'' \<and> pathname request = ''/score''
      \<and> payload request = ScoreBody \<lparr>case' = Some c\<rparr>
      \<and> (summary c = Some [] \<or> type' c = Some [])
    \<longrightarrow> fetch env sys g request =
          (Inr \<lparr>status = 400, allow_origin = cors (origin request),
                body = ErrorBody ''Missing required fields''\<rparr>, g))
   \<and> (method' request = ''POST'' \<and> pathname request = ''/feedback''
      \<and> payload request = FeedbackBody b
      \<and> (fb_case_id b = Some [] \<or> reviewer b = Some [] \<or> final_verdict b = Some [])
    \<longrightarrow> fetch env sys g request =
          (Inr \<lparr>status = 400, allow_origin = cors (origin request),
                body = ErrorBody ''Invalid feedback payload''\<rparr>, g))"
  by (auto simp add: fetch_post_score fetch_post_feedback truthy_def json_def)

theorem C10_empty_string_witness:
  "fetch \<lparr>MODEL_NAME = None, BACKEND = None\<rparr>
       \<lparr>randomUUID = ''uuid-1'', now = ''2026-01-01T00:00:00.000Z''\<rparr> None
       \<lparr>method' = ''POST'', pathname = ''/score'', origin = None,
        payload = ScoreBody \<lparr>case' = Some \<lparr>id' = None, type' = Some ''transaction'',
          summary = Some [], amount = Some 900, merchant = None, user_context = None\<rparr>\<rparr>\<rparr>
     = (Inr \<lparr>status = 400, allow_origin = ''*'', body = ErrorBody ''Missing required fields''\<rparr>,
        None)
   \<and> fetch \<lparr>MODEL_NAME = None, BACKEND = None\<rparr>
       \<lparr>randomUUID = ''uuid-1'', now = ''2026-01-01T00:00:00.000Z''\<rparr> None
       \<lparr>method' = ''POST'', pathname = ''/feedback'', origin = None,
        payload = FeedbackBody \<lparr>fb_case_id = Some ''CASE-1001'', reviewer = Some [],
          action = Some ''Approve'', final_verdict = Some ''Approve'', reason_codes = None,
          notes' = None, original = None\<rparr>\<rparr>
     = (Inr \<lparr>status = 400, allow_origin = ''*'', body = ErrorBody ''Invalid feedback payload''\<rparr>,
        None)"
  using C10_empty_string_is_missing
    [of "\<lparr>method' = ''POST'', pathname = ''/score'', origin = None,
        payload = ScoreBody \<lparr>case' = Some \<lparr>id' = None, type' = Some ''transaction'',
          summary = Some [], amount = Some 900, merchant = None, user_context = None\<rparr>\<rparr>\<rparr>"
        "\<lparr>id' = None, type' = Some ''transaction'',
          summary = Some [], amount = Some 900, merchant = None, user_context = None\<rparr>"
        "\<lparr>MODEL_NAME = None, BACKEND = None\<rparr>"
        "\<lparr>randomUUID = ''uuid-1'', now = ''2026-01-01T00:00:00.000Z''\<rparr>" None]
    C10_empty_string_is_missing
    [of "\<lparr>method' = ''POST'', pathname = ''/feedback'', origin = None,
        payload = FeedbackBody \<lparr>fb_case_id = Some ''CASE-1001'', reviewer = Some [],
          action = Some ''Approve'', final_verdict = Some ''Approve'', reason_codes = None,
          notes' = None, original = None\<rparr>\<rparr>" _
        "\<lparr>MODEL_NAME = None, BACKEND = None\<rparr>"
        "\<lparr>randomUUID = ''uuid-1'', now = ''2026-01-01T00:00:00.000Z''\<rparr>" None
        "\<lparr>fb_case_id = Some ''CASE-1001'', reviewer = Some [],
          action = Some ''Approve'', final_verdict = Some ''Approve'', reason_codes = None,
          notes' = None, original = None\<rparr>"]
  by (simp add: cors_def truthy_def)

section \<open>Properties of the analytics\<close>

subsection \<open>The override rate\<close>






text \<open>
  Where the exact quotient lies midway between two multiples of 0.01 the result is one
  of the two, and which one depends on the double: 1 of 8 gives 0.13, 3 of 200 gives 0.01.
\<close>

lemma override_rate_ties:
  "toFixed2 (binary64_div 1 8) = 13 / 100" "toFixed2 (binary64_div 3 200) = 1 / 100"
  by code_simp+



text \<open>The second example of the specification, evaluated.\<close>

lemma analytics_example:
  "computeAnalytics \<lparr>feedback =
          [\<lparr>fb_case_id = Some ''CASE-1001'', reviewer = Some ''analyst'',
            action = Some ''Override'', final_verdict = Some ''Review'',
            reason_codes = Some [''false_positive''], notes' = None, original = None,
            received_at = ''2026-01-01T00:00:00.000Z''\<rparr>,
           \<lparr>fb_case_id = Some ''CASE-1002'', reviewer = Some ''analyst'',
            action = Some ''Approve'', final_verdict = Some ''Approve'',
            reason_codes = None, notes' = None, original = None,
            received_at = ''2026-01-01T00:01:00.000Z''\<rparr>]\<rparr>
   = \<lparr>total_feedback = 2, override_rate = 1 / 2,
      top_reasons = [(''false_positive'', Count 1)]\<rparr>"
  by code_simp

subsection \<open>The reasons\<close>








lemma first_seen_snoc:
  "rev (remdups (rev (rs @ [r])))
   = (if r \<in> set rs then rev (remdups (rev rs)) else rev (remdups (rev rs)) @ [r])"
  by simp














text \<open>
  A reason code that names a member of \<^verbatim>\<open>Object.prototype\<close> is not counted: the
  first read finds the inherited member, and adding 1 to it makes a string;
  \<^verbatim>\<open>__proto__\<close> is never listed. The theorem below leaves these codes aside.
\<close>

lemma prototype_named_reasons:
  "top_reasons (computeAnalytics \<lparr>feedback =
     [\<lparr>fb_case_id = Some ''CASE-1001'', reviewer = Some ''analyst'',
       action = Some ''Override'', final_verdict = Some ''Review'',
       reason_codes = Some [''constructor'', ''__proto__'', ''late'', ''late''],
       notes' = None, original = None,
       received_at = ''2026-01-01T00:00:00.000Z''\<rparr>]\<rparr>)
     = [(''constructor'', Concatenated), (''late'', Count 2)]"
  by code_simp



text \<open>The same store, evaluated.\<close>

lemma top_reasons_example:
  "top_reasons (computeAnalytics \<lparr>feedback =
     [\<lparr>fb_case_id = Some ''CASE-1001'', reviewer = Some ''analyst'',
       action = Some ''Override'', final_verdict = Some ''Review'',
       reason_codes = Some [''late'', ''10'', ''late''], notes' = None, original = None,
       received_at = ''2026-01-01T00:00:00.000Z''\<rparr>,
      \<lparr>fb_case_id = Some ''CASE-1002'', reviewer = Some ''analyst'',
       action = Some ''Approve'', final_verdict = Some ''Approve'',
       reason_codes = None, notes' = None, original = None,
       received_at = ''2026-01-01T00:01:00.000Z''\<rparr>,
      \<lparr>fb_case_id = Some ''CASE-1003'', reviewer = Some ''analyst'',
       action = Some ''Override'', final_verdict = Some ''Reject'',
       reason_codes = Some [''9''], notes' = None, original = None,
       received_at = ''2026-01-01T00:02:00.000Z''\<rparr>]\<rparr>)
   = [(''late'', Count 2), (''9'', Count 1), (''10'', Count 1)]"
  by code_simp

end
